theory Spec2Isabelle
  imports Main
begin

section \<open>Values, records and exceptions\<close>

text \<open>
  The store keeps \<^verbatim>\<open>self.data: List[Dict]\<close>: a list of dictionaries from field names to
  the scalars that \<^verbatim>\<open>json.load\<close> and the \<^verbatim>\<open>to_dict\<close> methods produce. Strings are lists
  of characters with code points below 256, so text outside that range is not modelled.
  Floats are objects of the host interpreter: their type is the parameter \<open>'f\<close>, and
  whatever the program asks of a float (its \<^verbatim>\<open>str\<close>, its comparison with an integer,
  its arithmetic) is a field of the record \<open>host\<close> below.
\<close>

datatype 'f pyval =
    PyNone
  | PyBool bool
  | PyInt int
  | PyFloat 'f
  | PyStr string

text \<open>
  The objects that \<^verbatim>\<open>eval\<close> can return for a text of the characters the calculator
  lets through: integers, the host's inexact numbers (floats, and the complex numbers
  that \<^verbatim>\<open>**\<close> makes of them), the empty tuple and \<^verbatim>\<open>Ellipsis\<close>.
\<close>

datatype 'f evalue =
    VInt int
  | VFloat 'f
  | VTuple
  | VEllipsis

text \<open>
  The exceptions that the program or the library calls it makes can raise. In Python
  \<^verbatim>\<open>JSONDecodeError\<close> and \<^verbatim>\<open>UnicodeDecodeError\<close> are subclasses of \<^verbatim>\<open>ValueError\<close>; they
  arise in \<^verbatim>\<open>load_data\<close> only, which has no clause for \<^verbatim>\<open>ValueError\<close>.
\<close>

datatype py_exc =
    FileNotFoundError
  | IsADirectoryError
  | PermissionError
  | UnicodeDecodeError
  | JSONDecodeError
  | RecursionError
  | MemoryError
  | KeyError
  | ValueError string
  | SyntaxError
  | NameError
  | ZeroDivisionError
  | TypeError
  | OverflowError

datatype binop = Add | Sub | Mult | Div | FloorDiv | Pow

datatype unop = UAdd | USub

text \<open>
  The host's floats. \<open>float_binop\<close> is the arithmetic in which a float takes part: an
  operation with a float operand, the true division of two integers and an integer power
  with a negative exponent. It can raise (ZeroDivisionError, OverflowError, TypeError).

  \<open>out_of_resources\<close> is the other thing that depends on the interpreter and not on
  the language: the texts on which \<^verbatim>\<open>eval\<close> gives up, and the exception it raises then
  (SyntaxError for parentheses nested too deep or an integer literal with too many
  digits, RecursionError or MemoryError for an expression too deep for the parser or the
  compiler, or too large an integer).
\<close>

record 'f host =
  float_str :: "'f \<Rightarrow> string"
  float_eq_int :: "'f \<Rightarrow> int \<Rightarrow> bool"
  float_literal :: "string \<Rightarrow> 'f"
  float_binop :: "binop \<Rightarrow> 'f evalue \<Rightarrow> 'f evalue \<Rightarrow> py_exc + 'f evalue"
  float_unop :: "unop \<Rightarrow> 'f \<Rightarrow> 'f evalue"
  out_of_resources :: "string \<Rightarrow> py_exc option"

type_synonym 'f pydict = "(string \<times> 'f pyval) list"

text \<open>\<^verbatim>\<open>d[k]\<close> raises KeyError on a missing key: \<open>None\<close> here.\<close>

definition dict_get :: "'f pydict \<Rightarrow> string \<Rightarrow> 'f pyval option" where
  "dict_get d k = map_of d k"

text \<open>
  \<^verbatim>\<open>d[k] = v\<close>: an existing key keeps its position, a new key goes to the end.
\<close>

fun dict_setitem :: "string \<Rightarrow> 'f pyval \<Rightarrow> 'f pydict \<Rightarrow> 'f pydict" where
  "dict_setitem k v [] = [(k, v)]"
| "dict_setitem k v (p # ps) = (if fst p = k then (k, v) # ps else p # dict_setitem k v ps)"

text \<open>\<^verbatim>\<open>d.update(other)\<close> stores the items of \<^verbatim>\<open>other\<close> one after the other.\<close>

fun dict_update :: "'f pydict \<Rightarrow> 'f pydict \<Rightarrow> 'f pydict" where
  "dict_update d [] = d"
| "dict_update d ((k, v) # kvs) = dict_update (dict_setitem k v d) kvs"

definition dict_values :: "'f pydict \<Rightarrow> 'f pyval list" where
  "dict_values d = map snd d"

text \<open>
  \<^verbatim>\<open>item['id'] == id\<close> with \<^verbatim>\<open>id: int\<close>. Python compares numbers by value
  (\<^verbatim>\<open>True == 1\<close>); a string or \<^verbatim>\<open>None\<close> is never equal to an integer.
\<close>

fun py_eq_int :: "'f host \<Rightarrow> 'f pyval \<Rightarrow> int \<Rightarrow> bool" where
  "py_eq_int H (PyInt n) i = (n = i)"
| "py_eq_int H (PyBool b) i = ((if b then 1 else 0) = i)"
| "py_eq_int H (PyFloat x) i = float_eq_int H x i"
| "py_eq_int H PyNone i = False"
| "py_eq_int H (PyStr s) i = False"

subsection \<open>\<^verbatim>\<open>str\<close>, \<^verbatim>\<open>lower\<close> and \<^verbatim>\<open>find\<close>\<close>

definition digit_char :: "nat \<Rightarrow> char" where
  "digit_char d = ''0123456789'' ! (d mod 10)"

function str_nat :: "nat \<Rightarrow> string" where
  "str_nat n = (if n < 10 then [digit_char n] else str_nat (n div 10) @ [digit_char n])"
  by pat_completeness auto
termination
  by (relation "measure id") auto

definition str_int :: "int \<Rightarrow> string" where
  "str_int i = (if i < 0 then CHR ''-'' # str_nat (nat (- i)) else str_nat (nat i))"

fun py_str :: "'f host \<Rightarrow> 'f pyval \<Rightarrow> string" where
  "py_str H PyNone = ''None''"
| "py_str H (PyBool b) = (if b then ''True'' else ''False'')"
| "py_str H (PyInt n) = str_int n"
| "py_str H (PyFloat x) = float_str H x"
| "py_str H (PyStr s) = s"

text \<open>
  \<^verbatim>\<open>str.lower\<close>, on the code points below 256: the letters A to Z, and the
  capital letters from 192 to 222 (215, the multiplication sign, is not one).
\<close>

definition lower_char :: "char \<Rightarrow> char" where
  "lower_char c =
     (let n = of_char c :: nat in
      if (65 \<le> n \<and> n \<le> 90) \<or> (192 \<le> n \<and> n \<le> 222 \<and> n \<noteq> 215)
      then char_of (n + 32) else c)"

definition py_lower :: "string \<Rightarrow> string" where
  "py_lower s = map lower_char s"

fun starts_with :: "string \<Rightarrow> string \<Rightarrow> bool" where
  "starts_with s [] = True"
| "starts_with [] (c # cs) = False"
| "starts_with (x # xs) (c # cs) = (x = c \<and> starts_with xs cs)"

text \<open>
  \<^verbatim>\<open>s.find(sub)\<close>: the lowest index at which \<^verbatim>\<open>sub\<close> occurs in \<^verbatim>\<open>s\<close>, or \<open>-1\<close>.
  The second argument of \<open>find_from\<close> is the index reached so far.
\<close>

fun find_from :: "string \<Rightarrow> int \<Rightarrow> string \<Rightarrow> int" where
  "find_from [] i sub = (if sub = [] then i else - 1)"
| "find_from (x # xs) i sub =
     (if starts_with (x # xs) sub then i else find_from xs (i + 1) sub)"

definition py_find :: "string \<Rightarrow> string \<Rightarrow> int" where
  "py_find s sub = find_from s 0 sub"

section \<open>DataManager\<close>

text \<open>
  The file system maps a path to what \<^verbatim>\<open>open\<close> and \<^verbatim>\<open>json.load\<close> make of it; a path
  that does not exist maps to \<open>None\<close>. A file is represented by what happens when it is
  read:
  \<^item> \<open>JsonFile d\<close>: the JSON text of a list of records, which \<^verbatim>\<open>json.load\<close> decodes to \<open>d\<close>;
  \<^item> \<open>OtherJsonFile\<close>: the JSON text of any other value (an object, a number, a list
    with an element that is not a flat object), which \<^verbatim>\<open>json.load\<close> returns as well;
  \<^item> \<open>LoadRaises e\<close>: a file on which \<^verbatim>\<open>json.load\<close> raises \<open>e\<close>: JSONDecodeError for text
    that is not JSON, UnicodeDecodeError for bytes that are not text in the encoding,
    RecursionError for JSON nested too deep;
  \<^item> \<open>OpenRaises e\<close>: a path on which \<^verbatim>\<open>open\<close> raises \<open>e\<close>: IsADirectoryError for a
    directory, PermissionError for a file that may not be read.
\<close>

datatype 'f file_content =
    JsonFile "'f pydict list"
  | OtherJsonFile
  | LoadRaises py_exc
  | OpenRaises py_exc

type_synonym 'f files = "string \<rightharpoonup> 'f file_content"

text \<open>What \<^verbatim>\<open>json.load\<close> returns: a list of records, or another value.\<close>

datatype 'f loaded = Records "'f pydict list" | OtherValue

record 'f data_manager =
  filename :: string
  data :: "'f pydict list"

definition py_open :: "'f files \<Rightarrow> string \<Rightarrow> py_exc + 'f file_content" where
  "py_open fs name =
     (case fs name of
        None \<Rightarrow> Inl FileNotFoundError
      | Some (OpenRaises e) \<Rightarrow> Inl e
      | Some c \<Rightarrow> Inr c)"

definition json_load :: "'f file_content \<Rightarrow> py_exc + 'f loaded" where
  "json_load f =
     (case f of
        JsonFile d \<Rightarrow> Inr (Records d)
      | OtherJsonFile \<Rightarrow> Inr OtherValue
      | LoadRaises e \<Rightarrow> Inl e
      | OpenRaises e \<Rightarrow> Inl e)"

text \<open>
  \<^verbatim>\<open>load_data\<close>: the body of the \<^verbatim>\<open>try\<close> is \<^verbatim>\<open>open\<close>, then \<^verbatim>\<open>json.load\<close>, whose value
  is returned whatever it is. The one \<^verbatim>\<open>except\<close> clause turns FileNotFoundError into the
  empty list; every other exception leaves the function.
\<close>

definition load_data :: "'f files \<Rightarrow> string \<Rightarrow> py_exc + 'f loaded" where
  "load_data fs name =
     (case (case py_open fs name of Inl e \<Rightarrow> Inl e | Inr f \<Rightarrow> json_load f) of
        Inl FileNotFoundError \<Rightarrow> Inr (Records [])
      | Inl e \<Rightarrow> Inl e
      | Inr v \<Rightarrow> Inr v)"

definition save_data :: "'f data_manager \<Rightarrow> 'f files \<Rightarrow> 'f files" where
  "save_data dm fs = fs(filename dm \<mapsto> JsonFile (data dm))"

definition add_item :: "'f data_manager \<Rightarrow> 'f files \<Rightarrow> 'f pydict \<Rightarrow> 'f data_manager \<times> 'f files" where
  "add_item dm fs item =
     (let dm' = dm\<lparr>data := data dm @ [item]\<rparr> in (dm', save_data dm' fs))"

text \<open>
  \<^verbatim>\<open>next((item for item in self.data if item['id'] == id), None)\<close>: the scan stops at
  the first match, and raises KeyError at a record without the key \<^verbatim>\<open>'id'\<close> that it
  reaches before.
\<close>

fun get_item :: "'f host \<Rightarrow> 'f pydict list \<Rightarrow> int \<Rightarrow> py_exc + 'f pydict option" where
  "get_item H [] i = Inr None"
| "get_item H (item # rest) i =
     (case dict_get item ''id'' of
        None \<Rightarrow> Inl KeyError
      | Some v \<Rightarrow> if py_eq_int H v i then Inr (Some item) else get_item H rest i)"

text \<open>
  The loop of \<^verbatim>\<open>update_item\<close>: \<open>Inr (Some d)\<close> is the list after
  \<^verbatim>\<open>self.data[i].update(updated_data)\<close> at the first match, \<open>Inr None\<close> the loop
  running to its end.
\<close>

fun update_loop ::
  "'f host \<Rightarrow> 'f pydict list \<Rightarrow> int \<Rightarrow> 'f pydict \<Rightarrow> py_exc + 'f pydict list option" where
  "update_loop H [] i updated_data = Inr None"
| "update_loop H (item # rest) i updated_data =
     (case dict_get item ''id'' of
        None \<Rightarrow> Inl KeyError
      | Some v \<Rightarrow>
          if py_eq_int H v i then Inr (Some (dict_update item updated_data # rest))
          else (case update_loop H rest i updated_data of
                  Inl e \<Rightarrow> Inl e
                | Inr None \<Rightarrow> Inr None
                | Inr (Some rest') \<Rightarrow> Inr (Some (item # rest'))))"

definition update_item ::
  "'f host \<Rightarrow> 'f data_manager \<Rightarrow> 'f files \<Rightarrow> int \<Rightarrow> 'f pydict \<Rightarrow>
     py_exc + (bool \<times> 'f data_manager \<times> 'f files)" where
  "update_item H dm fs i updated_data =
     (case update_loop H (data dm) i updated_data of
        Inl e \<Rightarrow> Inl e
      | Inr None \<Rightarrow> Inr (False, dm, fs)
      | Inr (Some d') \<Rightarrow> (let dm' = dm\<lparr>data := d'\<rparr> in Inr (True, dm', save_data dm' fs)))"

text \<open>
  \<^verbatim>\<open>[item for item in self.data if item['id'] != id]\<close>: the comprehension reads
  \<^verbatim>\<open>item['id']\<close> of every record, so one record without the key raises KeyError before
  \<^verbatim>\<open>self.data\<close> is assigned.
\<close>

fun delete_filter :: "'f host \<Rightarrow> 'f pydict list \<Rightarrow> int \<Rightarrow> py_exc + 'f pydict list" where
  "delete_filter H [] i = Inr []"
| "delete_filter H (item # rest) i =
     (case dict_get item ''id'' of
        None \<Rightarrow> Inl KeyError
      | Some v \<Rightarrow>
          (case delete_filter H rest i of
             Inl e \<Rightarrow> Inl e
           | Inr rest' \<Rightarrow> Inr (if py_eq_int H v i then rest' else item # rest')))"

definition delete_item ::
  "'f host \<Rightarrow> 'f data_manager \<Rightarrow> 'f files \<Rightarrow> int \<Rightarrow>
     py_exc + (bool \<times> 'f data_manager \<times> 'f files)" where
  "delete_item H dm fs i =
     (let initial_length = length (data dm) in
      case delete_filter H (data dm) i of
        Inl e \<Rightarrow> Inl e
      | Inr d' \<Rightarrow>
          (let dm' = dm\<lparr>data := d'\<rparr> in
           if length d' < initial_length then Inr (True, dm', save_data dm' fs)
           else Inr (False, dm', fs)))"

definition search_items :: "'f host \<Rightarrow> 'f pydict list \<Rightarrow> string \<Rightarrow> 'f pydict list" where
  "search_items H d keyword =
     filter (\<lambda>item. list_ex (\<lambda>v. py_find (py_lower (py_str H v)) (py_lower keyword) \<noteq> - 1)
                        (dict_values item)) d"

text \<open>
  A collection of the data model: every record carries the key \<^verbatim>\<open>id\<close>.
\<close>

definition has_id :: "'f pydict \<Rightarrow> bool" where
  "has_id item = (dict_get item ''id'' \<noteq> None)"

text \<open>\<open>id_is H i item\<close>: the record has an \<^verbatim>\<open>id\<close>, and it is equal to \<open>i\<close>.\<close>

definition id_is :: "'f host \<Rightarrow> int \<Rightarrow> 'f pydict \<Rightarrow> bool" where
  "id_is H i item = (case dict_get item ''id'' of None \<Rightarrow> False | Some v \<Rightarrow> py_eq_int H v i)"

text \<open>
  A host for running the model on inputs in which no float occurs: it has one float,
  its arithmetic raises, and it never runs out of resources.
\<close>

definition no_float_host :: "unit host" where
  "no_float_host =
     \<lparr>float_str = (\<lambda>_. ''nan''),
      float_eq_int = (\<lambda>_ _. False),
      float_literal = (\<lambda>_. ()),
      float_binop = (\<lambda>_ _ _. Inl OverflowError),
      float_unop = (\<lambda>_ x. VFloat x),
      out_of_resources = (\<lambda>_. None)\<rparr>"

text \<open>A store of two notes, for running the operations.\<close>

definition notes_example :: "unit data_manager" where
  "notes_example =
     \<lparr>filename = ''notes.json'',
      data = [[(''id'', PyInt 1), (''title'', PyStr ''a'')],
              [(''id'', PyInt 2), (''title'', PyStr ''b'')]]\<rparr>"

section \<open>Validator\<close>

text \<open>
  \<^verbatim>\<open>validate_email\<close> and \<^verbatim>\<open>validate_phone\<close> are \<^verbatim>\<open>bool(re.match(pattern, s))\<close>. The
  patterns are written in a small regular-expression datatype and matched by derivatives.
  \<^verbatim>\<open>\d\<close> and \<^verbatim>\<open>\s\<close> are the digits and the white space among the code points below 256.
\<close>

definition one_of :: "string \<Rightarrow> char \<Rightarrow> bool" where
  "one_of cs c = (c \<in> set cs)"

definition is_digit :: "char \<Rightarrow> bool" where
  "is_digit = one_of ''0123456789''"

definition is_space :: "char \<Rightarrow> bool" where
  "is_space c = ((of_char c :: nat) \<in> set [9, 10, 11, 12, 13, 28, 29, 30, 31, 32, 133, 160])"

definition is_ascii_letter :: "char \<Rightarrow> bool" where
  "is_ascii_letter = one_of ''abcdefghijklmnopqrstuvwxyzABCDEFGHIJKLMNOPQRSTUVWXYZ''"

datatype rx = Never | Eps | Cls "char \<Rightarrow> bool" | Seq rx rx | Alt rx rx | Star rx

fun nullable :: "rx \<Rightarrow> bool" where
  "nullable Never = False"
| "nullable Eps = True"
| "nullable (Cls p) = False"
| "nullable (Seq r s) = (nullable r \<and> nullable s)"
| "nullable (Alt r s) = (nullable r \<or> nullable s)"
| "nullable (Star r) = True"

fun deriv :: "char \<Rightarrow> rx \<Rightarrow> rx" where
  "deriv c Never = Never"
| "deriv c Eps = Never"
| "deriv c (Cls p) = (if p c then Eps else Never)"
| "deriv c (Seq r s) =
     (if nullable r then Alt (Seq (deriv c r) s) (deriv c s) else Seq (deriv c r) s)"
| "deriv c (Alt r s) = Alt (deriv c r) (deriv c s)"
| "deriv c (Star r) = Seq (deriv c r) (Star r)"

fun rx_full :: "rx \<Rightarrow> string \<Rightarrow> bool" where
  "rx_full r [] = nullable r"
| "rx_full r (c # cs) = rx_full (deriv c r) cs"

fun at_least :: "nat \<Rightarrow> rx \<Rightarrow> rx" where
  "at_least 0 r = Star r"
| "at_least (Suc n) r = Seq r (at_least n r)"

text \<open>
  Both patterns start with \<^verbatim>\<open>^\<close> and end with \<^verbatim>\<open>$\<close>, and \<^verbatim>\<open>$\<close> matches at the end of
  the string and also just before a newline that ends the string.
\<close>

definition re_match_to_end :: "rx \<Rightarrow> string \<Rightarrow> bool" where
  "re_match_to_end r s =
     (rx_full r s \<or> (case rev s of [] \<Rightarrow> False | c # t \<Rightarrow> c = CHR 0x0A \<and> rx_full r (rev t)))"

text \<open>\<^verbatim>\<open>^[a-zA-Z0-9._%+-]+@[a-zA-Z0-9.-]+\.[a-zA-Z]{2,}$\<close>\<close>

definition email_pattern :: rx where
  "email_pattern =
     Seq (at_least 1 (Cls (\<lambda>c. is_ascii_letter c \<or> is_digit c \<or> one_of ''._%+-'' c)))
    (Seq (Cls (one_of ''@''))
    (Seq (at_least 1 (Cls (\<lambda>c. is_ascii_letter c \<or> is_digit c \<or> one_of ''.-'' c)))
    (Seq (Cls (one_of ''.''))
         (at_least 2 (Cls is_ascii_letter)))))"

definition validate_email :: "string \<Rightarrow> bool" where
  "validate_email email = re_match_to_end email_pattern email"

text \<open>\<^verbatim>\<open>^\+?[\d\s-]{10,}$\<close>\<close>

definition phone_pattern :: rx where
  "phone_pattern =
     Seq (Alt (Cls (one_of ''+'')) Eps)
         (at_least 10 (Cls (\<lambda>c. is_digit c \<or> is_space c \<or> one_of ''-'' c)))"

definition validate_phone :: "string \<Rightarrow> bool" where
  "validate_phone phone = re_match_to_end phone_pattern phone"



subsection \<open>strptime\<close>

text \<open>
  \<^verbatim>\<open>datetime.strptime\<close> turns the format into a regular expression with one group for each
  directive, matches it at the start of the string, raises ValueError when it does not
  match or when the match ends before the string does, and builds the date from the
  groups, which raises ValueError for a date or a time that does not exist. The formats
  \<^verbatim>\<open>%d-%m-%Y\<close> and \<^verbatim>\<open>%d-%m-%Y %H:%M:%S\<close> give
  \<^verbatim>\<open>(3[0-1]|[1-2]\d|0[1-9]|[1-9]| [1-9])-(1[0-2]|0[1-9]|[1-9])-(\d\d\d\d)\<close>, followed
  for the second by \<^verbatim>\<open>\s+(2[0-3]|[0-1]\d|\d):([0-5]\d|\d):(6[0-1]|[0-5]\d|\d)\<close>.

  A scanner returns the ways in which a piece of the expression matches a prefix of the
  string, as pairs of the text matched and the text left, in the order in which the
  backtracking matcher tries them. The head of the list for the whole expression is the
  match that \<^verbatim>\<open>re.match\<close> returns. The messages of the ValueErrors, which
  \<^verbatim>\<open>validate_date\<close> drops, are shortened.
\<close>

type_synonym scanned = "(string \<times> string) list"

fun seq_chars :: "(char \<Rightarrow> bool) list \<Rightarrow> string \<Rightarrow> scanned" where
  "seq_chars [] s = [([], s)]"
| "seq_chars (p # ps) [] = []"
| "seq_chars (p # ps) (c # cs) =
     (if p c then map (\<lambda>(m, r). (c # m, r)) (seq_chars ps cs) else [])"

definition alternatives :: "(char \<Rightarrow> bool) list list \<Rightarrow> string \<Rightarrow> scanned" where
  "alternatives alts s = concat (map (\<lambda>a. seq_chars a s) alts)"

definition directive_d :: "string \<Rightarrow> scanned" where
  "directive_d = alternatives
     [[one_of ''3'', one_of ''01''], [one_of ''12'', is_digit], [one_of ''0'', one_of ''123456789''],
      [one_of ''123456789''], [one_of '' '', one_of ''123456789'']]"

definition directive_m :: "string \<Rightarrow> scanned" where
  "directive_m = alternatives
     [[one_of ''1'', one_of ''012''], [one_of ''0'', one_of ''123456789''], [one_of ''123456789'']]"

definition directive_Y :: "string \<Rightarrow> scanned" where
  "directive_Y = alternatives [[is_digit, is_digit, is_digit, is_digit]]"

definition directive_H :: "string \<Rightarrow> scanned" where
  "directive_H = alternatives
     [[one_of ''2'', one_of ''0123''], [one_of ''01'', is_digit], [is_digit]]"

definition directive_M :: "string \<Rightarrow> scanned" where
  "directive_M = alternatives [[one_of ''012345'', is_digit], [is_digit]]"

definition directive_S :: "string \<Rightarrow> scanned" where
  "directive_S = alternatives
     [[one_of ''6'', one_of ''01''], [one_of ''012345'', is_digit], [is_digit]]"

definition literal :: "char \<Rightarrow> string \<Rightarrow> scanned" where
  "literal c = alternatives [[\<lambda>x. x = c]]"

fun whitespace :: "string \<Rightarrow> scanned" where
  "whitespace [] = []"
| "whitespace (c # cs) =
     (if is_space c then map (\<lambda>(m, r). (c # m, r)) (whitespace cs) @ [([c], cs)] else [])"

definition match_date :: "string \<Rightarrow> ((string \<times> string \<times> string) \<times> string) list" where
  "match_date s =
     [((d, m, y), r5).
        (d, r1) \<leftarrow> directive_d s, (x, r2) \<leftarrow> literal CHR ''-'' r1,
        (m, r3) \<leftarrow> directive_m r2, (x', r4) \<leftarrow> literal CHR ''-'' r3,
        (y, r5) \<leftarrow> directive_Y r4]"

definition match_time :: "string \<Rightarrow> ((string \<times> string \<times> string) \<times> string) list" where
  "match_time s =
     [((h, m, sec), r6).
        (w, r1) \<leftarrow> whitespace s,
        (h, r2) \<leftarrow> directive_H r1, (x, r3) \<leftarrow> literal CHR '':'' r2,
        (m, r4) \<leftarrow> directive_M r3, (x', r5) \<leftarrow> literal CHR '':'' r4,
        (sec, r6) \<leftarrow> directive_S r5]"

text \<open>\<^verbatim>\<open>int(group)\<close> on the text of a group: digits, after a space for \<^verbatim>\<open>%d\<close>.\<close>

definition py_int :: "string \<Rightarrow> nat" where
  "py_int s = foldl (\<lambda>n c. 10 * n + (of_char c - 48)) 0 (filter is_digit s)"

definition is_leap :: "nat \<Rightarrow> bool" where
  "is_leap y = (y mod 4 = 0 \<and> (y mod 100 \<noteq> 0 \<or> y mod 400 = 0))"

definition days_in_month :: "nat \<Rightarrow> nat \<Rightarrow> nat" where
  "days_in_month y m =
     (if m = 2 \<and> is_leap y then 29
      else [0, 31, 28, 31, 30, 31, 30, 31, 31, 30, 31, 30, 31] ! m)"

definition check_date :: "nat \<Rightarrow> nat \<Rightarrow> nat \<Rightarrow> py_exc + unit" where
  "check_date y m d =
     (if \<not> (1 \<le> y \<and> y \<le> 9999) then Inl (ValueError ''year is out of range'')
      else if \<not> (1 \<le> m \<and> m \<le> 12) then Inl (ValueError ''month must be in 1..12'')
      else if \<not> (1 \<le> d \<and> d \<le> days_in_month y m)
        then Inl (ValueError ''day is out of range for month'')
      else Inr ())"

definition check_time :: "nat \<Rightarrow> nat \<Rightarrow> nat \<Rightarrow> py_exc + unit" where
  "check_time h m s =
     (if \<not> h \<le> 23 then Inl (ValueError ''hour must be in 0..23'')
      else if \<not> m \<le> 59 then Inl (ValueError ''minute must be in 0..59'')
      else if \<not> s \<le> 59 then Inl (ValueError ''second must be in 0..59'')
      else Inr ())"

record datetime =
  year :: nat
  month :: nat
  day :: nat
  hour :: nat
  minute :: nat
  second :: nat

definition strptime :: "string \<Rightarrow> bool \<Rightarrow> py_exc + datetime" where
  "strptime date_string with_time =
     (case (if with_time
            then [((dmy, hms), r2). (dmy, r1) \<leftarrow> match_date date_string, (hms, r2) \<leftarrow> match_time r1]
            else [((dmy, (''0'', ''0'', ''0'')), r1). (dmy, r1) \<leftarrow> match_date date_string]) of
        [] \<Rightarrow> Inl (ValueError ''time data does not match format'')
      | (((d, m, y), (h, mi, s)), rest) # others \<Rightarrow>
          if rest \<noteq> [] then Inl (ValueError ''unconverted data remains'')
          else (case check_date (py_int y) (py_int m) (py_int d) of
                  Inl e \<Rightarrow> Inl e
                | Inr u \<Rightarrow>
                    (case check_time (py_int h) (py_int mi) (py_int s) of
                       Inl e \<Rightarrow> Inl e
                     | Inr u' \<Rightarrow>
                         Inr \<lparr>year = py_int y, month = py_int m, day = py_int d,
                              hour = py_int h, minute = py_int mi, second = py_int s\<rparr>)))"

text \<open>
  \<^verbatim>\<open>validate_date\<close> catches ValueError; any other exception would leave it.
\<close>

definition validate_date :: "string \<Rightarrow> bool \<Rightarrow> py_exc + bool" where
  "validate_date date_str with_time =
     (case strptime date_str with_time of
        Inr dt \<Rightarrow> Inr True
      | Inl (ValueError msg) \<Rightarrow> Inr False
      | Inl e \<Rightarrow> Inl e)"

section \<open>Calculator\<close>

text \<open>
  \<^verbatim>\<open>calculate\<close> lets a text through when all its characters are among
  \<^verbatim>\<open>0123456789.+-*/() \<close> and hands it to \<^verbatim>\<open>eval\<close> with no builtins. What follows is
  Python's expression language on such texts: its tokens, its grammar and its evaluation.
  With no letter there is no name and no keyword, so no lookup and no attribute; the
  tokens are numbers and the operators \<^verbatim>\<open>+ - * / ** // ( ) . ...\<close>.
\<close>

subsection \<open>Tokens\<close>

text \<open>A float literal keeps its text: its value is the host's \<open>float_literal\<close>.\<close>

datatype literal = IntLit nat | FloatLit string

datatype token = NUMBER literal | OP string

text \<open>
  The trees of the grammar, with the names of Python's \<^verbatim>\<open>ast\<close>. A call has no argument
  or one: there is no comma to separate two. The argument can be starred or
  double-starred (one asterisk before it, or two). Parentheses leave no node.
\<close>

datatype arg_kind = Positional | Starred | DoubleStarred

datatype expr =
    Constant literal
  | EllipsisConst
  | EmptyTuple
  | UnaryOp unop expr
  | BinOp expr binop expr
  | Call0 expr
  | Call1 expr arg_kind expr

text \<open>
  A number is digits, or digits with a point (a float, also \<^verbatim>\<open>1.\<close> and \<^verbatim>\<open>.5\<close>). An integer
  literal with a leading zero is an error unless all its digits are zeros; a float may
  start with zeros. \<^verbatim>\<open>**\<close> and \<^verbatim>\<open>//\<close> are one token each, three points are the token
  \<^verbatim>\<open>...\<close>, and a point that starts neither a float nor \<^verbatim>\<open>...\<close> is the token \<^verbatim>\<open>.\<close>.
  \<open>None\<close> is the tokenizer's SyntaxError. \<^verbatim>\<open>calculate\<close> calls \<^verbatim>\<open>eval\<close> on no text with
  another character, and the tokens of such a text are not modelled: the last branch.
\<close>

definition leading_zeros :: "string \<Rightarrow> bool" where
  "leading_zeros ds = (hd ds = CHR ''0'' \<and> \<not> list_all (\<lambda>d. d = CHR ''0'') ds)"

definition cons_token :: "token \<Rightarrow> token list option \<Rightarrow> token list option" where
  "cons_token t r = map_option (\<lambda>ts. t # ts) r"

function tokenize :: "string \<Rightarrow> token list option" where
  "tokenize [] = Some []"
| "tokenize (c # cs) =
     (if c = CHR '' '' then tokenize cs
      else if is_digit c then
        (let ds = c # takeWhile is_digit cs; r = dropWhile is_digit cs in
         if r \<noteq> [] \<and> hd r = CHR ''.''
         then cons_token (NUMBER (FloatLit (ds @ ''.'' @ takeWhile is_digit (tl r))))
                (tokenize (dropWhile is_digit (tl r)))
         else if leading_zeros ds then None
         else cons_token (NUMBER (IntLit (py_int ds))) (tokenize r))
      else if c = CHR ''.'' then
        (if cs \<noteq> [] \<and> is_digit (hd cs)
         then cons_token (NUMBER (FloatLit (''.'' @ takeWhile is_digit cs)))
                (tokenize (dropWhile is_digit cs))
         else if take 2 cs = ''..'' then cons_token (OP ''...'') (tokenize (drop 2 cs))
         else cons_token (OP ''.'') (tokenize cs))
      else if c = CHR ''*'' \<and> take 1 cs = ''*'' then cons_token (OP ''**'') (tokenize (drop 1 cs))
      else if c = CHR ''/'' \<and> take 1 cs = ''/'' then cons_token (OP ''//'') (tokenize (drop 1 cs))
      else if one_of ''+-*/()'' c then cons_token (OP [c]) (tokenize cs)
      else None)"
  by pat_completeness auto
termination
proof (relation "measure length")
  fix c :: char and cs x xa :: string
  assume "xa = dropWhile is_digit cs" "xa \<noteq> [] \<and> hd xa = CHR ''.''"
  then have "length (tl xa) < length xa" by (cases xa) auto
  moreover have "length xa \<le> length cs"
    using \<open>xa = dropWhile is_digit cs\<close> by (simp add: length_dropWhile_le)
  moreover have "length (dropWhile is_digit (tl xa)) \<le> length (tl xa)"
    by (rule length_dropWhile_le)
  ultimately show "(dropWhile is_digit (tl xa), c # cs) \<in> measure length" by simp
qed (auto simp: length_dropWhile_le le_imp_less_Suc)


subsection \<open>Grammar\<close>

text \<open>
  The rules of Python's grammar that these tokens can reach:
  \<^verbatim>\<open>
  sum:     sum '+' term | sum '-' term | term
  term:    term '*' factor | term '/' factor | term '//' factor | factor
  factor:  '+' factor | '-' factor | power
  power:   primary '**' factor | primary
  primary: primary '(' [argument] ')' | atom
  atom:    NUMBER | '...' | '(' ')' | '(' sum ')'
  \<close>
  The parser is one function by recursive descent; its first argument is the rule. The
  left-recursive rules are loops (\<open>SumRest\<close>, \<open>TermRest\<close>, \<open>Trailers\<close>) that carry the
  tree built so far. \<open>None\<close> is a SyntaxError. The tests \<open>length r < length toks\<close>
  are there for the termination proof: they always hold (lemma \<open>parse_shorter\<close>), and
  the equations without them are the lemmas \<open>parse_Sum\<close> to \<open>parse_Trailers\<close>.
\<close>

datatype nonterm =
    Sum | SumRest expr | Term | TermRest expr | Factor | Power | Primary | Trailers expr | Atom

fun rank :: "nonterm \<Rightarrow> nat" where
  "rank Sum = 6"
| "rank Term = 5"
| "rank Factor = 4"
| "rank Power = 3"
| "rank Primary = 2"
| "rank Atom = 1"
| "rank (SumRest e) = 0"
| "rank (TermRest e) = 0"
| "rank (Trailers e) = 0"

definition next_is :: "string \<Rightarrow> token list \<Rightarrow> bool" where
  "next_is s toks = (toks \<noteq> [] \<and> hd toks = OP s)"

function parse :: "nonterm \<Rightarrow> token list \<Rightarrow> (expr \<times> token list) option" where
  "parse Sum toks =
     (case parse Term toks of
        None \<Rightarrow> None
      | Some (e, r) \<Rightarrow> if length r < length toks then parse (SumRest e) r else None)"
| "parse (SumRest e) toks =
     (if next_is ''+'' toks \<or> next_is ''-'' toks then
        (case parse Term (tl toks) of
           None \<Rightarrow> None
         | Some (t, r) \<Rightarrow>
             if length r < length toks
             then parse (SumRest (BinOp e (if next_is ''+'' toks then Add else Sub) t)) r
             else None)
      else Some (e, toks))"
| "parse Term toks =
     (case parse Factor toks of
        None \<Rightarrow> None
      | Some (e, r) \<Rightarrow> if length r < length toks then parse (TermRest e) r else None)"
| "parse (TermRest e) toks =
     (if next_is ''*'' toks \<or> next_is ''/'' toks \<or> next_is ''//'' toks then
        (case parse Factor (tl toks) of
           None \<Rightarrow> None
         | Some (f, r) \<Rightarrow>
             if length r < length toks
             then parse (TermRest (BinOp e (if next_is ''*'' toks then Mult
                                            else if next_is ''/'' toks then Div else FloorDiv) f)) r
             else None)
      else Some (e, toks))"
| "parse Factor toks =
     (if next_is ''+'' toks \<or> next_is ''-'' toks then
        (case parse Factor (tl toks) of
           None \<Rightarrow> None
         | Some (e, r) \<Rightarrow> Some (UnaryOp (if next_is ''+'' toks then UAdd else USub) e, r))
      else parse Power toks)"
| "parse Power toks =
     (case parse Primary toks of
        None \<Rightarrow> None
      | Some (b, r) \<Rightarrow>
          if next_is ''**'' r then
            (if length r < length toks then
               (case parse Factor (tl r) of
                  None \<Rightarrow> None
                | Some (x, r') \<Rightarrow> Some (BinOp b Pow x, r'))
             else None)
          else Some (b, r))"
| "parse Primary toks =
     (case parse Atom toks of
        None \<Rightarrow> None
      | Some (e, r) \<Rightarrow> if length r < length toks then parse (Trailers e) r else None)"
| "parse (Trailers e) toks =
     (if next_is ''('' toks then
        (if next_is '')'' (tl toks) then parse (Trailers (Call0 e)) (tl (tl toks))
         else
           (case parse Sum (if next_is ''*'' (tl toks) \<or> next_is ''**'' (tl toks)
                            then tl (tl toks) else tl toks) of
              None \<Rightarrow> None
            | Some (a, r) \<Rightarrow>
                if next_is '')'' r \<and> length r < length toks
                then parse (Trailers (Call1 e (if next_is ''*'' (tl toks) then Starred
                                                else if next_is ''**'' (tl toks) then DoubleStarred
                                                else Positional) a)) (tl r)
                else None))
      else Some (e, toks))"
| "parse Atom toks =
     (case toks of
        [] \<Rightarrow> None
      | NUMBER l # r \<Rightarrow> Some (Constant l, r)
      | OP s # r \<Rightarrow>
          if s = ''...'' then Some (EllipsisConst, r)
          else if s = ''('' then
            (if next_is '')'' r then Some (EmptyTuple, tl r)
             else
               (case parse Sum r of
                  None \<Rightarrow> None
                | Some (e, r') \<Rightarrow> if next_is '')'' r' then Some (e, tl r') else None))
          else None)"
  by pat_completeness auto
termination
  by (relation "inv_image (less_than <*lex*> less_than) (\<lambda>(n, toks). (length toks, rank n))")
     (auto simp: next_is_def)

text \<open>The whole text must be one expression.\<close>

definition py_parse :: "token list \<Rightarrow> expr option" where
  "py_parse toks = (case parse Sum toks of Some (e, []) \<Rightarrow> Some e | _ \<Rightarrow> None)"


subsection \<open>Evaluation\<close>

text \<open>
  Integers are unbounded and their arithmetic is exact; \<^verbatim>\<open>//\<close> rounds down, as \<open>div\<close>
  does. \<^verbatim>\<open>/\<close> of two integers and \<^verbatim>\<open>**\<close> with a negative exponent give a float, by the
  host's arithmetic, after the test for zero. The empty tuple can be added to itself and
  multiplied by an integer that fits the machine's index type (64 bits). Everything else
  with a tuple or \<^verbatim>\<open>Ellipsis\<close> is a TypeError.
\<close>

fun py_unop :: "'f host \<Rightarrow> unop \<Rightarrow> 'f evalue \<Rightarrow> py_exc + 'f evalue" where
  "py_unop H UAdd (VInt n) = Inr (VInt n)"
| "py_unop H USub (VInt n) = Inr (VInt (- n))"
| "py_unop H op (VFloat x) = Inr (float_unop H op x)"
| "py_unop H op VTuple = Inl TypeError"
| "py_unop H op VEllipsis = Inl TypeError"

definition fits_ssize :: "int \<Rightarrow> bool" where
  "fits_ssize n = (- (2 ^ 63) \<le> n \<and> n < 2 ^ 63)"

fun int_binop :: "'f host \<Rightarrow> binop \<Rightarrow> int \<Rightarrow> int \<Rightarrow> py_exc + 'f evalue" where
  "int_binop H Add x y = Inr (VInt (x + y))"
| "int_binop H Sub x y = Inr (VInt (x - y))"
| "int_binop H Mult x y = Inr (VInt (x * y))"
| "int_binop H Div x y =
     (if y = 0 then Inl ZeroDivisionError else float_binop H Div (VInt x) (VInt y))"
| "int_binop H FloorDiv x y = (if y = 0 then Inl ZeroDivisionError else Inr (VInt (x div y)))"
| "int_binop H Pow x y =
     (if 0 \<le> y then Inr (VInt (x ^ nat y))
      else if x = 0 then Inl ZeroDivisionError
      else float_binop H Pow (VInt x) (VInt y))"

fun py_binop :: "'f host \<Rightarrow> binop \<Rightarrow> 'f evalue \<Rightarrow> 'f evalue \<Rightarrow> py_exc + 'f evalue" where
  "py_binop H op (VInt x) (VInt y) = int_binop H op x y"
| "py_binop H op (VFloat x) (VInt y) = float_binop H op (VFloat x) (VInt y)"
| "py_binop H op (VInt x) (VFloat y) = float_binop H op (VInt x) (VFloat y)"
| "py_binop H op (VFloat x) (VFloat y) = float_binop H op (VFloat x) (VFloat y)"
| "py_binop H op VTuple VTuple = (if op = Add then Inr VTuple else Inl TypeError)"
| "py_binop H op VTuple (VInt n) =
     (if op = Mult then (if fits_ssize n then Inr VTuple else Inl OverflowError)
      else Inl TypeError)"
| "py_binop H op (VInt n) VTuple =
     (if op = Mult then (if fits_ssize n then Inr VTuple else Inl OverflowError)
      else Inl TypeError)"
| "py_binop H op VTuple (VFloat y) = Inl TypeError"
| "py_binop H op (VFloat x) VTuple = Inl TypeError"
| "py_binop H op VEllipsis b = Inl TypeError"
| "py_binop H op a VEllipsis = Inl TypeError"

text \<open>
  Operands are evaluated from left to right, and a call evaluates what is called, then
  the argument, and then raises TypeError: none of the values is callable.
\<close>

fun eval_expr :: "'f host \<Rightarrow> expr \<Rightarrow> py_exc + 'f evalue" where
  "eval_expr H (Constant (IntLit n)) = Inr (VInt (int n))"
| "eval_expr H (Constant (FloatLit s)) = Inr (VFloat (float_literal H s))"
| "eval_expr H EllipsisConst = Inr VEllipsis"
| "eval_expr H EmptyTuple = Inr VTuple"
| "eval_expr H (UnaryOp op e) =
     (case eval_expr H e of Inl x \<Rightarrow> Inl x | Inr v \<Rightarrow> py_unop H op v)"
| "eval_expr H (BinOp l op r) =
     (case eval_expr H l of
        Inl x \<Rightarrow> Inl x
      | Inr a \<Rightarrow> (case eval_expr H r of Inl x \<Rightarrow> Inl x | Inr b \<Rightarrow> py_binop H op a b))"
| "eval_expr H (Call0 f) =
     (case eval_expr H f of Inl x \<Rightarrow> Inl x | Inr v \<Rightarrow> Inl TypeError)"
| "eval_expr H (Call1 f k a) =
     (case eval_expr H f of
        Inl x \<Rightarrow> Inl x
      | Inr v \<Rightarrow> (case eval_expr H a of Inl x \<Rightarrow> Inl x | Inr w \<Rightarrow> Inl TypeError))"

text \<open>
  \<^verbatim>\<open>eval(expression, {"__builtins__": {}})\<close> on a text of the allowed characters.
\<close>

definition py_eval :: "'f host \<Rightarrow> string \<Rightarrow> py_exc + 'f evalue" where
  "py_eval H s =
     (case out_of_resources H s of
        Some x \<Rightarrow> Inl x
      | None \<Rightarrow>
          (case tokenize s of
             None \<Rightarrow> Inl SyntaxError
           | Some toks \<Rightarrow>
               (case py_parse toks of None \<Rightarrow> Inl SyntaxError | Some e \<Rightarrow> eval_expr H e)))"

definition allowed_chars :: "char set" where
  "allowed_chars = set ''0123456789.+-*/() ''"

text \<open>
  \<^verbatim>\<open>calculate\<close>: the test of the characters, then \<^verbatim>\<open>eval\<close> under
  \<^verbatim>\<open>except (SyntaxError, NameError, ZeroDivisionError)\<close>, which raises ValueError in their
  place; any other exception leaves the function.
\<close>

definition calculate :: "'f host \<Rightarrow> string \<Rightarrow> py_exc + 'f evalue" where
  "calculate H expression =
     (if \<not> list_all (\<lambda>c. c \<in> allowed_chars) expression
      then Inl (ValueError ''Invalid characters in expression'')
      else (case py_eval H expression of
              Inl SyntaxError \<Rightarrow> Inl (ValueError ''Invalid expression'')
            | Inl NameError \<Rightarrow> Inl (ValueError ''Invalid expression'')
            | Inl ZeroDivisionError \<Rightarrow> Inl (ValueError ''Invalid expression'')
            | Inl e \<Rightarrow> Inl e
            | Inr v \<Rightarrow> Inr v))"

subsection \<open>The grammar of the specification\<close>




definition ends_power :: "token list \<Rightarrow> bool" where
  "ends_power k = (\<not> next_is ''('' k \<and> \<not> next_is ''**'' k)"

definition ends_term :: "token list \<Rightarrow> bool" where
  "ends_term k =
     (ends_power k \<and> \<not> next_is ''*'' k \<and> \<not> next_is ''/'' k \<and> \<not> next_is ''//'' k)"

text \<open>A tree without a call.\<close>

fun call_free :: "expr \<Rightarrow> bool" where
  "call_free (Constant l) = True"
| "call_free EllipsisConst = True"
| "call_free EmptyTuple = True"
| "call_free (UnaryOp op e) = call_free e"
| "call_free (BinOp l op r) = (call_free l \<and> call_free r)"
| "call_free (Call0 f) = False"
| "call_free (Call1 f k a) = False"


section \<open>Properties of the store\<close>

subsection \<open>Dictionaries, scans and filters\<close>

lemma dict_get_setitem:
  "dict_get (dict_setitem k v d) k' = (if k' = k then Some v else dict_get d k')"
  by (induction d) (auto simp: dict_get_def)

lemma dict_get_update:
  "dict_get (dict_update d p) k =
     (case map_of (rev p) k of Some v \<Rightarrow> Some v | None \<Rightarrow> dict_get d k)"
proof (induction p arbitrary: d)
  case Nil
  then show ?case by simp
next
  case (Cons kv p)
  obtain k' v' where kv: "kv = (k', v')" by (cases kv)
  show ?case
    by (simp add: kv Cons.IH dict_get_setitem map_add_def split: option.splits)
qed

lemma map_of_rev_None: "map_of (rev p) k = None \<longleftrightarrow> k \<notin> fst ` set p"
  by (simp add: map_of_eq_None_iff)

lemma find_empty: "py_find s [] = 0"
  by (cases s) (simp_all add: py_find_def)

lemma get_item_Some:
  "get_item H d i = Inr (Some item) \<Longrightarrow>
     \<exists>n < length d. d ! n = item \<and> id_is H i item \<and>
       (\<forall>m < n. has_id (d ! m) \<and> \<not> id_is H i (d ! m)) \<and>
       update_loop H d i p = Inr (Some (d[n := dict_update item p]))"
proof (induction d)
  case Nil
  then show ?case by simp
next
  case (Cons a d)
  show ?case
  proof (cases "dict_get a ''id''")
    case None
    with Cons.prems show ?thesis by simp
  next
    case (Some v)
    show ?thesis
    proof (cases "py_eq_int H v i")
      case True
      with Some Cons.prems have "a = item" by simp
      with Some True show ?thesis
        by (intro exI[of _ 0]) (simp add: id_is_def)
    next
      case False
      with Some Cons.prems have "get_item H d i = Inr (Some item)" by simp
      from Cons.IH[OF this] obtain n where n: "n < length d" "d ! n = item" "id_is H i item"
        "\<forall>m < n. has_id (d ! m) \<and> \<not> id_is H i (d ! m)"
        "update_loop H d i p = Inr (Some (d[n := dict_update item p]))" by blast
      have "\<forall>m < Suc n. has_id ((a # d) ! m) \<and> \<not> id_is H i ((a # d) ! m)"
        using n(4) Some False by (auto simp: less_Suc_eq_0_disj has_id_def id_is_def)
      with n Some False show ?thesis
        by (intro exI[of _ "Suc n"]) simp
    qed
  qed
qed

lemma delete_filter_ok:
  "list_all has_id d \<Longrightarrow> delete_filter H d i = Inr (filter (\<lambda>item. \<not> id_is H i item) d)"
  by (induction d) (auto simp: has_id_def id_is_def)

lemma get_item_filtered:
  "list_all has_id d \<Longrightarrow> get_item H (filter (\<lambda>item. \<not> id_is H i item) d) i = Inr None"
  by (induction d) (auto simp: has_id_def id_is_def)

lemma filter_length_lt: "length (filter P d) < length d \<longleftrightarrow> list_ex (\<lambda>x. \<not> P x) d"
proof (induction d)
  case Nil
  then show ?case by simp
next
  case (Cons a d)
  have "length (filter P d) < Suc (length d)"
    by (rule le_imp_less_Suc[OF length_filter_le])
  with Cons show ?case by auto
qed

lemma filter_none: "\<not> list_ex (\<lambda>x. \<not> P x) d \<Longrightarrow> filter P d = d"
  by (induction d) auto

lemma update_loop_no_match:
  "list_all (\<lambda>item. has_id item \<and> \<not> id_is H i item) d \<Longrightarrow> update_loop H d i p = Inr None"
  by (induction d) (auto simp: has_id_def id_is_def)

lemma has_id_values: "has_id item \<Longrightarrow> dict_values item \<noteq> []"
  by (cases item) (auto simp: has_id_def dict_get_def dict_values_def)

subsection \<open>update\<close>

text \<open>
  Claim C1, as amended. When \<open>get_item\<close> finds a record with the given id, \<open>update_item\<close>
  returns \<open>True\<close>, replaces that record (the first match, at its position \<open>n\<close>) by the
  record merged with the patch, leaves the other records as they are and writes the new
  list to the file. In the merged record a key of the patch has the patch's value and
  every other key has the value it had; so a field not named in the patch is unchanged,
  and \<^verbatim>\<open>id\<close> is unchanged when the patch has no key \<^verbatim>\<open>id\<close>.
\<close>

theorem update_item_frame:
  assumes "get_item H (data dm) i = Inr (Some item)"
  shows "\<exists>n < length (data dm).
           data dm ! n = item \<and>
           (\<forall>m < n. \<not> id_is H i (data dm ! m)) \<and>
           update_item H dm fs i updated_data =
             Inr (True, dm\<lparr>data := (data dm)[n := dict_update item updated_data]\<rparr>,
                  fs(filename dm \<mapsto> JsonFile ((data dm)[n := dict_update item updated_data]))) \<and>
           (\<forall>k. dict_get (dict_update item updated_data) k =
                  (case map_of (rev updated_data) k of
                     Some v \<Rightarrow> Some v
                   | None \<Rightarrow> dict_get item k)) \<and>
           (\<forall>k. k \<notin> fst ` set updated_data \<longrightarrow>
                  dict_get (dict_update item updated_data) k = dict_get item k)"
proof -
  from get_item_Some[OF assms, of updated_data] obtain n where n: "n < length (data dm)"
    "data dm ! n = item"
    "\<forall>m < n. has_id (data dm ! m) \<and> \<not> id_is H i (data dm ! m)"
    "update_loop H (data dm) i updated_data =
       Inr (Some ((data dm)[n := dict_update item updated_data]))"
    by blast
  have upd: "update_item H dm fs i updated_data =
             Inr (True, dm\<lparr>data := (data dm)[n := dict_update item updated_data]\<rparr>,
                  fs(filename dm \<mapsto> JsonFile ((data dm)[n := dict_update item updated_data])))"
    by (simp add: update_item_def n(4) save_data_def)
  have frame: "\<forall>k. k \<notin> fst ` set updated_data \<longrightarrow>
                  dict_get (dict_update item updated_data) k = dict_get item k"
    by (simp add: dict_get_update map_of_rev_None[symmetric])
  show ?thesis
    using n(1,2,3) upd frame by (intro exI[of _ n]) (simp add: dict_get_update)
qed

text \<open>
  The theorem at the second note and the patch \<^verbatim>\<open>{'title': 'c'}\<close>: the title changes,
  the id and the first note do not.
\<close>

theorem update_item_frame_witness:
  "get_item no_float_host (data notes_example) 2 =
     Inr (Some [(''id'', PyInt 2), (''title'', PyStr ''b'')]) \<and>
   update_item no_float_host notes_example Map.empty 2 [(''title'', PyStr ''c'')] =
     Inr (True,
          notes_example\<lparr>data := [[(''id'', PyInt 1), (''title'', PyStr ''a'')],
                                  [(''id'', PyInt 2), (''title'', PyStr ''c'')]]\<rparr>,
          [''notes.json'' \<mapsto> JsonFile [[(''id'', PyInt 1), (''title'', PyStr ''a'')],
                                            [(''id'', PyInt 2), (''title'', PyStr ''c'')]]])"
proof -
  have g: "get_item no_float_host (data notes_example) 2 =
             Inr (Some [(''id'', PyInt 2), (''title'', PyStr ''b'')])"
    by (simp add: notes_example_def dict_get_def)
  from update_item_frame[OF g, of Map.empty "[(''title'', PyStr ''c'')]"]
  obtain n where n: "n < length (data notes_example)"
    "data notes_example ! n = [(''id'', PyInt 2), (''title'', PyStr ''b'')]"
    "update_item no_float_host notes_example Map.empty 2 [(''title'', PyStr ''c'')] =
       Inr (True,
            notes_example\<lparr>data := (data notes_example)
               [n := dict_update [(''id'', PyInt 2), (''title'', PyStr ''b'')]
                                 [(''title'', PyStr ''c'')]]\<rparr>,
            [filename notes_example \<mapsto> JsonFile ((data notes_example)
               [n := dict_update [(''id'', PyInt 2), (''title'', PyStr ''b'')]
                                 [(''title'', PyStr ''c'')]])])"
    by blast
  from n(1,2) have "n = 1"
    by (cases n) (auto simp: notes_example_def)
  with n(3) g show ?thesis
    by (simp add: notes_example_def)
qed

text \<open>
  Claim C1, as stated, fails: \<^verbatim>\<open>dict.update\<close> stores every key of the patch, \<^verbatim>\<open>id\<close>
  included. On the store holding the one record \<^verbatim>\<open>{'id': 1, 'title': 'a'}\<close>,
  \<^verbatim>\<open>update_item(1, {'id': 2})\<close> returns \<open>True\<close> and leaves the record with the id 2, in
  memory and in the file.
\<close>

theorem update_item_overwrites_id:
  "update_item no_float_host
     \<lparr>filename = ''notes.json'', data = [[(''id'', PyInt 1), (''title'', PyStr ''a'')]]\<rparr>
     Map.empty 1 [(''id'', PyInt 2)] =
   Inr (True,
        \<lparr>filename = ''notes.json'', data = [[(''id'', PyInt 2), (''title'', PyStr ''a'')]]\<rparr>,
        [''notes.json'' \<mapsto> JsonFile [[(''id'', PyInt 2), (''title'', PyStr ''a'')]]])"
  by (simp add: update_item_def dict_get_def save_data_def)

text \<open>
  Claim C9. When every record has an \<^verbatim>\<open>id\<close> and none of them is equal to the given
  id, \<open>update_item\<close> returns \<open>False\<close>; the store and the files are the ones it was given,
  so nothing was saved.
\<close>

theorem update_item_no_match:
  assumes "list_all (\<lambda>item. has_id item \<and> \<not> id_is H i item) (data dm)"
  shows "update_item H dm fs i updated_data = Inr (False, dm, fs)"
  by (simp add: update_item_def update_loop_no_match[OF assms])

text \<open>The theorem at the two notes and the id 7, with an empty list stored in the file.\<close>

theorem update_item_no_match_witness:
  "list_all (\<lambda>item. has_id item \<and> \<not> id_is no_float_host 7 item) (data notes_example) \<and>
   update_item no_float_host notes_example [''notes.json'' \<mapsto> JsonFile []] 7
       [(''title'', PyStr ''z'')] =
     Inr (False, notes_example, [''notes.json'' \<mapsto> JsonFile []])"
proof -
  have h: "list_all (\<lambda>item. has_id item \<and> \<not> id_is no_float_host 7 item) (data notes_example)"
    by (simp add: notes_example_def has_id_def id_is_def dict_get_def)
  from h update_item_no_match[OF h] show ?thesis by simp
qed

subsection \<open>load\<close>

text \<open>
  Claim C6, as amended. \<open>load_data\<close> returns the empty list when the file is absent.
  When the file is there and \<^verbatim>\<open>json.load\<close> raises on it, \<open>load_data\<close> returns nothing:
  the exception that was raised leaves it unchanged, whichever it is, since the
  \<^verbatim>\<open>except\<close> clause is for FileNotFoundError only (which \<^verbatim>\<open>json.load\<close> does not raise).
\<close>

theorem load_data_absent_or_unparsable:
  "(fs name = None \<longrightarrow> load_data fs name = Inr (Records [])) \<and>
   (\<forall>e. fs name = Some (LoadRaises e) \<and> e \<noteq> FileNotFoundError \<longrightarrow>
          load_data fs name = Inl e)"
proof -
  have absent: "load_data fs name = Inr (Records [])" if "fs name = None"
    using that by (simp add: load_data_def py_open_def)
  have raises: "load_data fs name = Inl e"
    if "fs name = Some (LoadRaises e)" and "e \<noteq> FileNotFoundError" for e
    using that by (cases e) (simp_all add: load_data_def py_open_def json_load_def)
  from absent raises show ?thesis by blast
qed

text \<open>
  The theorem with no file at all, with a \<^verbatim>\<open>tasks.json\<close> that is not JSON and with a
  \<^verbatim>\<open>contacts.json\<close> that is not text.
\<close>

theorem load_data_absent_or_unparsable_witness:
  "load_data (Map.empty :: unit files) ''notes.json'' = Inr (Records []) \<and>
   load_data ([''tasks.json'' \<mapsto> LoadRaises JSONDecodeError] :: unit files) ''tasks.json'' =
     Inl JSONDecodeError \<and>
   load_data ([''contacts.json'' \<mapsto> LoadRaises UnicodeDecodeError] :: unit files)
     ''contacts.json'' = Inl UnicodeDecodeError"
  using load_data_absent_or_unparsable[of "Map.empty :: unit files" "''notes.json''"]
    load_data_absent_or_unparsable[of
      "[''tasks.json'' \<mapsto> LoadRaises JSONDecodeError] :: unit files" "''tasks.json''"]
    load_data_absent_or_unparsable[of
      "[''contacts.json'' \<mapsto> LoadRaises UnicodeDecodeError] :: unit files" "''contacts.json''"]
  by simp

text \<open>
  Claim C6, as stated, fails: the program has no \<^verbatim>\<open>PersistenceError\<close>. Loading a
  \<^verbatim>\<open>notes.json\<close> that is not JSON ends in the \<^verbatim>\<open>JSONDecodeError\<close> of the JSON library.
\<close>

theorem load_data_malformed_raises_JSONDecodeError:
  "load_data ([''notes.json'' \<mapsto> LoadRaises JSONDecodeError] :: unit files) ''notes.json'' =
     Inl JSONDecodeError"
  by (simp add: load_data_def py_open_def json_load_def)

subsection \<open>delete\<close>

text \<open>
  Claim C7. On a collection whose records all have an \<^verbatim>\<open>id\<close>, \<open>delete_item\<close> returns
  whether some record has the given id. The records left are those with another id, in
  their order, and \<open>get_item\<close> finds no record with the given id among them. When a
  record was removed, the new list is written to the file; when none was, the store and
  the files are unchanged.
\<close>

theorem delete_item_correct:
  assumes "list_all has_id (data dm)"
  shows "\<exists>dm' fs'.
           delete_item H dm fs i = Inr (list_ex (id_is H i) (data dm), dm', fs') \<and>
           data dm' = filter (\<lambda>item. \<not> id_is H i item) (data dm) \<and>
           filename dm' = filename dm \<and>
           get_item H (data dm') i = Inr None \<and>
           (if list_ex (id_is H i) (data dm)
            then fs' = fs(filename dm \<mapsto> JsonFile (data dm'))
            else dm' = dm \<and> fs' = fs)"
proof (cases "list_ex (id_is H i) (data dm)")
  case True
  then have "length (filter (\<lambda>item. \<not> id_is H i item) (data dm)) < length (data dm)"
    by (simp add: filter_length_lt)
  with True show ?thesis
    by (simp add: delete_item_def delete_filter_ok[OF assms] get_item_filtered[OF assms]
        save_data_def)
next
  case False
  then have same: "filter (\<lambda>item. \<not> id_is H i item) (data dm) = data dm"
    by (intro filter_none) simp
  have "get_item H (data dm) i = Inr None"
    using get_item_filtered[OF assms, of H i] by (simp only: same)
  with False show ?thesis
    by (simp add: delete_item_def delete_filter_ok[OF assms] same)
qed

text \<open>
  The theorem at the two notes: deleting the id 1 leaves the second note and saves it,
  deleting the id 3 changes nothing.
\<close>

theorem delete_item_correct_witness:
  "list_all has_id (data notes_example) \<and>
   delete_item no_float_host notes_example Map.empty 1 =
     Inr (True, notes_example\<lparr>data := [[(''id'', PyInt 2), (''title'', PyStr ''b'')]]\<rparr>,
          [''notes.json'' \<mapsto> JsonFile [[(''id'', PyInt 2), (''title'', PyStr ''b'')]]]) \<and>
   delete_item no_float_host notes_example Map.empty 3 = Inr (False, notes_example, Map.empty)"
proof -
  have h: "list_all has_id (data notes_example)"
    by (simp add: notes_example_def has_id_def dict_get_def)
  have e1: "list_ex (id_is no_float_host 1) (data notes_example)"
    by (simp add: notes_example_def id_is_def dict_get_def)
  have e3: "\<not> list_ex (id_is no_float_host 3) (data notes_example)"
    by (simp add: notes_example_def id_is_def dict_get_def)
  have f1: "filter (\<lambda>item. \<not> id_is no_float_host 1 item) (data notes_example) =
              [[(''id'', PyInt 2), (''title'', PyStr ''b'')]]"
    by (simp add: notes_example_def id_is_def dict_get_def)
  have fn: "filename notes_example = ''notes.json''"
    by (simp add: notes_example_def)
  from delete_item_correct[OF h, of no_float_host Map.empty 1] e1 f1 fn
  have d1: "delete_item no_float_host notes_example Map.empty 1 =
     Inr (True, notes_example\<lparr>data := [[(''id'', PyInt 2), (''title'', PyStr ''b'')]]\<rparr>,
          [''notes.json'' \<mapsto> JsonFile [[(''id'', PyInt 2), (''title'', PyStr ''b'')]]])"
    by (auto simp: notes_example_def)
  from delete_item_correct[OF h, of no_float_host Map.empty 3] e3
  have d3: "delete_item no_float_host notes_example Map.empty 3 =
              Inr (False, notes_example, Map.empty)"
    by auto
  from h d1 d3 show ?thesis by simp
qed

subsection \<open>search\<close>

text \<open>
  Claim C10. On a collection whose records all have an \<^verbatim>\<open>id\<close>, \<open>search_items\<close> with the
  empty keyword returns the whole collection, in its order: \<^verbatim>\<open>find\<close> of the empty string
  is 0 in every string, and every record has a value to look at.
\<close>

theorem search_items_empty_keyword:
  assumes "list_all has_id d"
  shows "search_items H d [] = d"
proof -
  have "\<And>item. item \<in> set d \<Longrightarrow>
          list_ex (\<lambda>v. py_find (py_lower (py_str H v)) (py_lower []) \<noteq> - 1) (dict_values item)"
  proof -
    fix item assume "item \<in> set d"
    with assms have "has_id item" by (simp add: list_all_iff)
    then obtain v vs where "dict_values item = v # vs"
      using has_id_values by (cases "dict_values item") auto
    then show "list_ex (\<lambda>v. py_find (py_lower (py_str H v)) (py_lower []) \<noteq> - 1)
                 (dict_values item)"
      by (simp add: py_lower_def find_empty)
  qed
  then show ?thesis
    by (simp add: search_items_def filter_id_conv)
qed

text \<open>The theorem at the two notes.\<close>

theorem search_items_empty_keyword_witness:
  "list_all has_id (data notes_example) \<and>
   search_items no_float_host (data notes_example) [] = data notes_example"
proof -
  have h: "list_all has_id (data notes_example)"
    by (simp add: notes_example_def has_id_def dict_get_def)
  from h search_items_empty_keyword[OF h] show ?thesis by simp
qed

section \<open>Properties of the validators\<close>

lemma strptime_raises_ValueError: "strptime s wt = Inl e \<Longrightarrow> \<exists>msg. e = ValueError msg"
  by (auto simp: strptime_def check_date_def check_time_def
      split: list.splits if_splits sum.splits prod.splits)

lemma validate_date_total: "\<exists>b. validate_date s wt = Inr b"
proof (cases "strptime s wt")
  case (Inl e)
  then obtain msg where "e = ValueError msg"
    using strptime_raises_ValueError by blast
  with Inl have "validate_date s wt = Inr False" by (simp add: validate_date_def)
  then show ?thesis by blast
next
  case (Inr dt)
  then have "validate_date s wt = Inr True" by (simp add: validate_date_def)
  then show ?thesis by blast
qed

text \<open>
  Claim C8. The four examples evaluate as stated: 31 April is not a date, 29 February
  2024 is one, the last part of \<^verbatim>\<open>a@b.c\<close> is shorter than two letters and \<^verbatim>\<open>12345\<close> has
  fewer than ten characters. \<open>validate_date\<close> returns a boolean on every string, with
  and without the time: \<open>strptime\<close> raises nothing but ValueError, which is caught.
  \<open>validate_email\<close> and \<open>validate_phone\<close> are the boolean of a match.
\<close>

theorem validators_on_examples:
  "validate_date ''31-04-2024'' False = Inr False \<and>
   validate_date ''29-02-2024'' False = Inr True \<and>
   validate_email ''a@b.c'' = False \<and>
   validate_phone ''12345'' = False \<and>
   (\<forall>s with_time. \<exists>b. validate_date s with_time = Inr b)"
proof -
  have d1: "validate_date ''31-04-2024'' False = Inr False" by code_simp
  have d2: "validate_date ''29-02-2024'' False = Inr True" by code_simp
  have e: "validate_email ''a@b.c'' = False" by code_simp
  have p: "validate_phone ''12345'' = False" by code_simp
  from d1 d2 e p validate_date_total show ?thesis by blast
qed

text \<open>The two dates of the claim, taken from the theorem.\<close>

theorem validators_on_examples_witness:
  "validate_date ''29-02-2024'' False = Inr True \<and> validate_date ''31-04-2024'' False = Inr False"
  using validators_on_examples by blast

section \<open>Properties of the calculator\<close>

subsection \<open>The parser consumes tokens\<close>

declare parse.simps [simp del]











subsection \<open>The parser on the grammar of the specification\<close>

lemma next_is_Cons [simp]: "next_is s (t # ts) = (t = OP s)"
  by (simp add: next_is_def)

lemma next_is_Nil [simp]: "next_is s [] = False"
  by (simp add: next_is_def)

lemma ends_term_simps [simp]:
  "ends_term (OP ''+'' # k)" "ends_term (OP ''-'' # k)" "ends_term (OP '')'' # k)" "ends_term []"
  by (simp_all add: ends_term_def ends_power_def)

lemma ends_power_simps [simp]:
  "ends_power (OP ''*'' # k)" "ends_power (OP ''/'' # k)" "ends_term k \<Longrightarrow> ends_power k"
  by (simp_all add: ends_term_def ends_power_def)







subsection \<open>Evaluation\<close>

lemma eval_call_free: "eval_expr H e = Inr v \<Longrightarrow> call_free e"
  by (induction e arbitrary: v) (auto split: sum.splits)


subsection \<open>What an accepted text can use\<close>

text \<open>
  Claim C2, as amended. When \<open>calculate\<close> returns a value, the text has passed the test
  of the characters, it is an expression of the grammar above, and the value is the
  value of its tree. The tree is made of numbers, \<^verbatim>\<open>Ellipsis\<close>, the empty tuple, unary
  \<^verbatim>\<open>+\<close> and \<^verbatim>\<open>-\<close> and the binary operators \<^verbatim>\<open>+ - * / // **\<close>; it has no call, since
  evaluating a call raises. The grammar has no name and no attribute.
\<close>

theorem calculate_accepts_arithmetic_only:
  assumes "calculate H s = Inr v"
  shows "list_all (\<lambda>c. c \<in> allowed_chars) s \<and>
         (\<exists>ts e. tokenize s = Some ts \<and> py_parse ts = Some e \<and> call_free e \<and>
                 eval_expr H e = Inr v)"
proof -
  from assms have ok: "list_all (\<lambda>c. c \<in> allowed_chars) s"
    by (auto simp: calculate_def split: if_splits)
  with assms have ev: "py_eval H s = Inr v"
    by (auto simp: calculate_def split: sum.splits py_exc.splits)
  then obtain ts e where "tokenize s = Some ts" "py_parse ts = Some e" "eval_expr H e = Inr v"
    by (auto simp: py_eval_def split: option.splits)
  with ok eval_call_free[of H e v] show ?thesis by blast
qed

text \<open>The theorem at \<^verbatim>\<open>-(2 + 3) * 4\<close>, which evaluates to -20.\<close>

theorem calculate_accepts_arithmetic_only_witness:
  "calculate no_float_host ''-(2 + 3) * 4'' = Inr (VInt (- 20)) \<and>
   (\<exists>ts e. tokenize ''-(2 + 3) * 4'' = Some ts \<and> py_parse ts = Some e \<and> call_free e \<and>
           eval_expr no_float_host e = Inr (VInt (- 20)))"
proof -
  have c: "calculate no_float_host ''-(2 + 3) * 4'' = Inr (VInt (- 20))"
    by code_simp
  from c calculate_accepts_arithmetic_only[OF c] show ?thesis by blast
qed

text \<open>
  Claim C2, as stated, fails: \<^verbatim>\<open>2**3\<close> is accepted, its tree is a power and its value is
  8; \<^verbatim>\<open>7//2\<close> is accepted, its tree is a floor division and its value is 3.
\<close>

theorem calculate_power_and_floor_division:
  "calculate no_float_host ''2**3'' = Inr (VInt 8) \<and>
   map_option py_parse (tokenize ''2**3'') =
     Some (Some (BinOp (Constant (IntLit 2)) Pow (Constant (IntLit 3)))) \<and>
   calculate no_float_host ''7//2'' = Inr (VInt 3) \<and>
   map_option py_parse (tokenize ''7//2'') =
     Some (Some (BinOp (Constant (IntLit 7)) FloorDiv (Constant (IntLit 2))))"
  by code_simp

subsection \<open>Division by zero\<close>

text \<open>
  Claim C3, as amended. On a text that passes the test of the characters, a
  ZeroDivisionError of the evaluation becomes \<^verbatim>\<open>ValueError("Invalid expression")\<close>, and so
  does a SyntaxError: dividing by zero and malformed syntax fail with the same error.
  Dividing an integer by the integer zero, with \<^verbatim>\<open>/\<close> or with \<^verbatim>\<open>//\<close>, raises that
  ZeroDivisionError.
\<close>

theorem calculate_zero_division:
  assumes "list_all (\<lambda>c. c \<in> allowed_chars) s"
  shows "(py_eval H s = Inl ZeroDivisionError \<longrightarrow>
            calculate H s = Inl (ValueError ''Invalid expression'')) \<and>
         (py_eval H s = Inl SyntaxError \<longrightarrow>
            calculate H s = Inl (ValueError ''Invalid expression'')) \<and>
         (\<forall>l r x. eval_expr H l = Inr (VInt x) \<and> eval_expr H r = Inr (VInt 0) \<longrightarrow>
            eval_expr H (BinOp l Div r) = Inl ZeroDivisionError \<and>
            eval_expr H (BinOp l FloorDiv r) = Inl ZeroDivisionError)"
  using assms by (simp add: calculate_def)

text \<open>The theorem at \<^verbatim>\<open>1 / 0\<close>, which divides by zero, and at \<^verbatim>\<open>1 /\<close>, which is malformed.\<close>

theorem calculate_zero_division_witness:
  "py_eval no_float_host ''1 / 0'' = Inl ZeroDivisionError \<and>
   calculate no_float_host ''1 / 0'' = Inl (ValueError ''Invalid expression'') \<and>
   py_eval no_float_host ''1 /'' = Inl SyntaxError \<and>
   calculate no_float_host ''1 /'' = Inl (ValueError ''Invalid expression'')"
proof -
  have a1: "list_all (\<lambda>c. c \<in> allowed_chars) ''1 / 0''" by (simp add: allowed_chars_def)
  have a2: "list_all (\<lambda>c. c \<in> allowed_chars) ''1 /''" by (simp add: allowed_chars_def)
  have e1: "py_eval no_float_host ''1 / 0'' = Inl ZeroDivisionError" by code_simp
  have e2: "py_eval no_float_host ''1 /'' = Inl SyntaxError" by code_simp
  from e1 e2 calculate_zero_division[OF a1, of no_float_host]
    calculate_zero_division[OF a2, of no_float_host]
  show ?thesis by simp
qed

text \<open>
  Claim C3, as stated, fails: \<^verbatim>\<open>1 / 0\<close> fails with the ValueError that the malformed
  \<^verbatim>\<open>1 /\<close> fails with, message included; the program has no error of its own for a
  division by zero.
\<close>

theorem calculate_zero_division_same_error:
  "calculate no_float_host ''1 / 0'' = Inl (ValueError ''Invalid expression'') \<and>
   calculate no_float_host ''1 /'' = Inl (ValueError ''Invalid expression'')"
  by code_simp

subsection \<open>Rejected texts\<close>

text \<open>
  Claim C4, as amended. A text with a character outside the allowed ones fails with
  \<^verbatim>\<open>ValueError("Invalid characters in expression")\<close> whatever \<^verbatim>\<open>eval\<close> would do, and
  \<^verbatim>\<open>2 & 2\<close> is one. A text of allowed characters that Python's tokenizer or grammar
  rejects fails with \<^verbatim>\<open>ValueError("Invalid expression")\<close>, when the interpreter does not
  run out of resources on it.
\<close>

theorem calculate_rejects:
  "(\<not> list_all (\<lambda>c. c \<in> allowed_chars) s \<longrightarrow>
      calculate H s = Inl (ValueError ''Invalid characters in expression'')) \<and>
   (list_all (\<lambda>c. c \<in> allowed_chars) s \<and> out_of_resources H s = None \<and>
    (tokenize s = None \<or> (\<exists>ts. tokenize s = Some ts \<and> py_parse ts = None)) \<longrightarrow>
      calculate H s = Inl (ValueError ''Invalid expression'')) \<and>
   calculate H ''2 & 2'' = Inl (ValueError ''Invalid characters in expression'')"
proof -
  have bad: "calculate H s = Inl (ValueError ''Invalid characters in expression'')"
    if "\<not> list_all (\<lambda>c. c \<in> allowed_chars) s"
    using that by (simp add: calculate_def)
  have malformed: "calculate H s = Inl (ValueError ''Invalid expression'')"
    if "list_all (\<lambda>c. c \<in> allowed_chars) s" "out_of_resources H s = None"
      "tokenize s = None \<or> (\<exists>ts. tokenize s = Some ts \<and> py_parse ts = None)"
  proof -
    from that(2,3) have "py_eval H s = Inl SyntaxError"
      by (auto simp: py_eval_def)
    with that(1) show ?thesis by (simp add: calculate_def)
  qed
  have amp: "calculate H ''2 & 2'' = Inl (ValueError ''Invalid characters in expression'')"
    by (simp add: calculate_def allowed_chars_def)
  from bad malformed amp show ?thesis by blast
qed

text \<open>
  The theorem at \<^verbatim>\<open>2 $ 2\<close>, which has a character that is not allowed, at \<^verbatim>\<open>(2 + 3\<close>, whose
  parenthesis is not closed, and at \<^verbatim>\<open>2 * / 2\<close>, which has two binary operators in a row.
\<close>

theorem calculate_rejects_witness:
  "calculate no_float_host ''2 $ 2'' = Inl (ValueError ''Invalid characters in expression'') \<and>
   calculate no_float_host ''(2 + 3'' = Inl (ValueError ''Invalid expression'') \<and>
   calculate no_float_host ''2 * / 2'' = Inl (ValueError ''Invalid expression'') \<and>
   calculate no_float_host ''2 & 2'' = Inl (ValueError ''Invalid characters in expression'')"
proof -
  have b: "\<not> list_all (\<lambda>c. c \<in> allowed_chars) ''2 $ 2''" by (simp add: allowed_chars_def)
  have a1: "list_all (\<lambda>c. c \<in> allowed_chars) ''(2 + 3''" by (simp add: allowed_chars_def)
  have a2: "list_all (\<lambda>c. c \<in> allowed_chars) ''2 * / 2''" by (simp add: allowed_chars_def)
  have r: "out_of_resources no_float_host ''(2 + 3'' = None"
    "out_of_resources no_float_host ''2 * / 2'' = None"
    by (simp_all add: no_float_host_def)
  have p1: "\<exists>ts. tokenize ''(2 + 3'' = Some ts \<and> py_parse ts = None"
  proof -
    have "map_option py_parse (tokenize ''(2 + 3'') = Some None" by code_simp
    then show ?thesis by auto
  qed
  have p2: "\<exists>ts. tokenize ''2 * / 2'' = Some ts \<and> py_parse ts = None"
  proof -
    have "map_option py_parse (tokenize ''2 * / 2'') = Some None" by code_simp
    then show ?thesis by auto
  qed
  from b a1 a2 r p1 p2 calculate_rejects[of "''2 $ 2''" no_float_host]
    calculate_rejects[of "''(2 + 3''" no_float_host]
    calculate_rejects[of "''2 * / 2''" no_float_host]
  show ?thesis by blast
qed

text \<open>
  Claim C4, as stated, fails: \<^verbatim>\<open>2 ++ 2\<close> is not malformed for \<^verbatim>\<open>eval\<close>, whose grammar has
  a unary plus. It is the sum of 2 and +2, and \<open>calculate\<close> returns 4.
\<close>

theorem calculate_two_plus_plus_two:
  "calculate no_float_host ''2 ++ 2'' = Inr (VInt 4) \<and>
   map_option py_parse (tokenize ''2 ++ 2'') =
     Some (Some (BinOp (Constant (IntLit 2)) Add (UnaryOp UAdd (Constant (IntLit 2)))))"
  by code_simp

subsection \<open>Precedence and associativity\<close>




end
